theory Spec2Isabelle
  imports Main
begin

section \<open>Policy constants (django.conf.settings)\<close>

text \<open>
  A \<open>datetime\<close> is an integer number of microseconds since the epoch and a
  \<open>timedelta\<close> an integer number of microseconds, so \<open>now + delta\<close>,
  \<open>now - then\<close> and the comparisons of the source are those of \<open>int\<close>.

  \<open>LOGIN_ATTEMPTS\<close>, \<open>LOCKOUT_DURATION\<close> and \<open>OTP_EXPIRATION\<close> are read by
  the models and the views but are assigned in no settings module of the repository:
  they are fields of the configuration every operation takes. The token lifetimes and
  the cookie attributes are those of \<open>bankStream/settings/base.py\<close>;
  \<open>COOKIE_SECURE\<close> comes from the environment there.
\<close>

type_synonym datetime = int
type_synonym timedelta = int

record settings =
  LOGIN_ATTEMPTS :: int
  LOCKOUT_DURATION :: timedelta
  OTP_EXPIRATION :: timedelta
  ACCESS_TOKEN_LIFETIME :: timedelta
  REFRESH_TOKEN_LIFETIME :: timedelta
  COOKIE_PATH :: string
  COOKIE_SECURE :: bool
  COOKIE_HTTPONLY :: bool
  COOKIE_SAMESITE :: string

section \<open>The identity (core_apps/user_auth/models.py, class User)\<close>

datatype AccountStatus = ACTIVE | LOCKED

text \<open>
  The fields of \<open>User\<close> that the lockout and OTP logic reads or writes. The primary
  key \<open>id\<close> is called \<open>pk\<close> here; \<open>null=True\<close> columns are options; a blank
  \<open>otp\<close> is the empty string.
\<close>

record user =
  pk :: nat
  email :: string
  account_status :: AccountStatus
  failed_login_attempts :: int
  last_failed_login :: "datetime option"
  otp :: string
  otp_expiry_time :: "datetime option"

section \<open>The store and the mail queue\<close>

datatype mail = OtpEmail string string | AccountLockedEmail string

text \<open>
  The table of users in the order of \<open>Meta.ordering\<close> (a query's \<open>.first()\<close> is the
  first match of the list), and the mails handed to the mail backend so far.
\<close>

record world =
  users :: "user list"
  outbox :: "mail list"

text \<open>
  \<open>self.save()\<close> on an object that was loaded from the table: the row with the
  object's primary key is overwritten with the object's fields. Every \<open>save\<close> of
  the code modelled here is of that kind.
\<close>

definition save :: "user \<Rightarrow> world \<Rightarrow> world" where
  "save u w = w\<lparr>users := map (\<lambda>v. if pk v = pk u then u else v) (users w)\<rparr>"

text \<open>
  \<open>emails.py\<close>: both functions build a message and call \<open>email.send()\<close> inside
  \<open>try/except Exception\<close>; the message is recorded in the queue. Template rendering
  and the mail transport are outside the model.
\<close>

definition send_otp_email :: "string \<Rightarrow> string \<Rightarrow> world \<Rightarrow> world" where
  "send_otp_email addr code w = w\<lparr>outbox := outbox w @ [OtpEmail addr code]\<rparr>"

definition send_account_locked_email :: "user \<Rightarrow> world \<Rightarrow> world" where
  "send_account_locked_email u w = w\<lparr>outbox := outbox w @ [AccountLockedEmail (email u)]\<rparr>"

section \<open>Methods of User\<close>

datatype py_error = TypeError

text \<open>
  Each method takes the object and the world and returns the mutated object and the
  new world; \<open>now\<close> is the value \<open>timezone.now()\<close> returns in the call.
\<close>

definition set_otp :: "settings \<Rightarrow> datetime \<Rightarrow> string \<Rightarrow> user \<Rightarrow> world \<Rightarrow> user \<times> world" where
  "set_otp cfg now code u w =
     (let u1 = u\<lparr>otp := code\<rparr>;
          u2 = u1\<lparr>otp_expiry_time := Some (now + OTP_EXPIRATION cfg)\<rparr>
      in (u2, save u2 w))"

text \<open>
  \<open>self.otp == otp and self.otp_expiry_time > timezone.now()\<close>: the right operand
  is evaluated only when the codes are equal, and comparing \<open>None\<close> with a datetime
  raises \<open>TypeError\<close>.
\<close>

definition verify_otp :: "datetime \<Rightarrow> string \<Rightarrow> user \<Rightarrow> world \<Rightarrow> py_error + (bool \<times> user \<times> world)" where
  "verify_otp now code u w =
     (if otp u = code then
        (case otp_expiry_time u of
           None \<Rightarrow> Inl TypeError
         | Some expiry \<Rightarrow>
             if expiry > now then
               (let u1 = u\<lparr>otp := []\<rparr>;
                    u2 = u1\<lparr>otp_expiry_time := None\<rparr>
                in Inr (True, u2, save u2 w))
             else Inr (False, u, w))
      else Inr (False, u, w))"

definition handle_failed_login_attempts :: "settings \<Rightarrow> datetime \<Rightarrow> user \<Rightarrow> world \<Rightarrow> user \<times> world" where
  "handle_failed_login_attempts cfg now u w =
     (let u1 = u\<lparr>failed_login_attempts := failed_login_attempts u + 1\<rparr>;
          u2 = u1\<lparr>last_failed_login := Some now\<rparr>
      in if failed_login_attempts u2 \<ge> LOGIN_ATTEMPTS cfg then
           (let u3 = u2\<lparr>account_status := LOCKED\<rparr>;
                w1 = save u3 w;
                w2 = send_account_locked_email u3 w1
            in (u3, save u3 w2))
         else (u2, save u2 w))"

definition reset_failed_login_attempts :: "user \<Rightarrow> world \<Rightarrow> user \<times> world" where
  "reset_failed_login_attempts u w =
     (let u1 = u\<lparr>failed_login_attempts := 0\<rparr>;
          u2 = u1\<lparr>last_failed_login := None\<rparr>;
          u3 = u2\<lparr>account_status := ACTIVE\<rparr>
      in (u3, save u3 w))"

definition unlock_account :: "user \<Rightarrow> world \<Rightarrow> user \<times> world" where
  "unlock_account u w =
     (if account_status u = LOCKED then
        (let u1 = u\<lparr>account_status := ACTIVE\<rparr>;
             u2 = u1\<lparr>failed_login_attempts := 0\<rparr>;
             u3 = u2\<lparr>last_failed_login := None\<rparr>
         in (u3, save u3 w))
      else (u, w))"

text \<open>
  The property \<open>is_locked_out\<close>. \<open>self.last_failed_login and ...\<close> is false for
  \<open>None\<close> without reading the clock; a datetime is always truthy.
\<close>

definition is_locked_out :: "settings \<Rightarrow> datetime \<Rightarrow> user \<Rightarrow> world \<Rightarrow> bool \<times> user \<times> world" where
  "is_locked_out cfg now u w =
     (if account_status u = LOCKED then
        (case last_failed_login u of
           Some t \<Rightarrow>
             if now - t > LOCKOUT_DURATION cfg then
               (let (u1, w1) = unlock_account u w in (False, u1, w1))
             else (True, u, w)
         | None \<Rightarrow> (True, u, w))
      else (False, u, w))"

section \<open>OTP generation (core_apps/user_auth/utils.py)\<close>

text \<open>
  \<open>secrets.choice(seq)\<close> is \<open>seq[randbelow(len(seq))]\<close>; the random source is
  a function giving the raw value drawn at the i-th iteration, reduced below the
  length of the sequence.
\<close>

definition digits :: string where
  "digits = ''0123456789''"

definition choice :: "nat \<Rightarrow> 'a list \<Rightarrow> 'a" where
  "choice r seq = seq ! (r mod length seq)"

definition generate_otp :: "(nat \<Rightarrow> nat) \<Rightarrow> nat \<Rightarrow> string" where
  "generate_otp rnd len = map (\<lambda>i. choice (rnd i) digits) [0..<len]"

section \<open>Responses and cookies (core_apps/user_auth/views.py)\<close>

text \<open>
  A value of a response body is a literal, or one of the f-strings that embed
  \<open>LOCKOUT_DURATION.total_seconds() / 60\<close> between two literals, printed as the
  float is (\<open>Minutes\<close>) or with the format \<open>:.0f\<close> (\<open>MinutesRounded\<close>).
\<close>

datatype body_text =
  Lit string | Minutes string timedelta string | MinutesRounded string timedelta string

record cookie =
  cookie_name :: string
  cookie_value :: string
  path :: string
  secure :: bool
  httponly :: bool
  samesite :: string
  max_age :: timedelta

record response =
  status :: nat
  data :: "(string \<times> body_text) list"
  cookies :: "cookie list"

definition Response :: "(string \<times> body_text) list \<Rightarrow> nat \<Rightarrow> response" where
  "Response d s = \<lparr>status = s, data = d, cookies = []\<rparr>"

definition set_cookie :: "string \<Rightarrow> string \<Rightarrow> cookie \<Rightarrow> response \<Rightarrow> response" where
  "set_cookie key val attrs r =
     r\<lparr>cookies := cookies r @ [attrs\<lparr>cookie_name := key, cookie_value := val\<rparr>]\<rparr>"

text \<open>
  \<open>set_auth_cookies\<close>: the access cookie, the refresh cookie when a non-empty
  refresh token is given, and the \<open>logged_in\<close> flag that scripts may read.
  \<open>max_age\<close> holds the token lifetime.
\<close>

definition set_auth_cookies :: "settings \<Rightarrow> string \<Rightarrow> string option \<Rightarrow> response \<Rightarrow> response" where
  "set_auth_cookies cfg access_token refresh_token r =
     (let cookie_settings =
            \<lparr>cookie_name = [], cookie_value = [], path = COOKIE_PATH cfg,
             secure = COOKIE_SECURE cfg, httponly = COOKIE_HTTPONLY cfg,
             samesite = COOKIE_SAMESITE cfg, max_age = ACCESS_TOKEN_LIFETIME cfg\<rparr>;
          r1 = set_cookie ''access'' access_token cookie_settings r;
          r2 = (case refresh_token of
                  None \<Rightarrow> r1
                | Some tok \<Rightarrow>
                    if tok = [] then r1
                    else set_cookie ''refresh'' tok
                           (cookie_settings\<lparr>max_age := REFRESH_TOKEN_LIFETIME cfg\<rparr>) r1)
      in set_cookie ''logged_in'' ''true'' (cookie_settings\<lparr>httponly := False\<rparr>) r2)"

section \<open>The login endpoint (CustomTokenCreateView)\<close>

record login_request =
  req_email :: "string option"
  req_password :: "string option"

definition locked_response :: "settings \<Rightarrow> response" where
  "locked_response cfg =
     Response
       [(''error'', Minutes
           ''Account is locked due to multiple failed login attempts.Please try again after ''
           (LOCKOUT_DURATION cfg) '' minutes.'')]
       403"

definition otp_sent_response :: "string \<Rightarrow> response" where
  "otp_sent_response addr =
     Response
       [(''success'', Lit ''OTP sent to your email. Please verify to complete login.''),
        (''email'', Lit addr)]
       200"

definition lockout_triggered_response :: "settings \<Rightarrow> response" where
  "lockout_triggered_response cfg =
     Response
       [(''error'', Lit ''You have exceeded the maximum number of login attempts.''),
        (''details'', MinutesRounded ''Your account has been locked for ''
           (LOCKOUT_DURATION cfg) '' minutes.''),
        (''further_instructions'',
           Lit ''An email has been sent to you with further instructions.'')]
       403"

definition invalid_credentials_response :: response where
  "invalid_credentials_response =
     Response [(''error'', Lit ''Invalid credentials. Please try again.'')] 400"

text \<open>
  \<open>_action\<close>, for the user the serializer authenticated. \<open>t_lock\<close> is the clock
  as \<open>is_locked_out\<close> reads it and \<open>t_otp\<close> as \<open>set_otp\<close> reads it.
\<close>

definition action :: "settings \<Rightarrow> (nat \<Rightarrow> nat) \<Rightarrow> datetime \<Rightarrow> datetime \<Rightarrow> user \<Rightarrow> world \<Rightarrow> response \<times> world" where
  "action cfg rnd t_lock t_otp usr w =
     (let (locked, u1, w1) = is_locked_out cfg t_lock usr w
      in if locked then (locked_response cfg, w1)
         else
           (let (u2, w2) = reset_failed_login_attempts u1 w1;
                code = generate_otp rnd 6;
                (u3, w3) = set_otp cfg t_otp code u2 w2;
                w4 = send_otp_email (email u3) code w3
            in (otp_sent_response (email u3), w4)))"

text \<open>
  \<open>User.objects.filter(email=email).first()\<close>; a missing \<open>email\<close> key gives
  \<open>None\<close>, which matches no row of the non-null column.
\<close>

definition filter_email_first :: "string option \<Rightarrow> world \<Rightarrow> user option" where
  "filter_email_first e w =
     (case e of None \<Rightarrow> None | Some a \<Rightarrow> find (\<lambda>u. email u = a) (users w))"

text \<open>
  \<open>post\<close>. The serializer is djoser's and not part of the repository:
  \<open>is_valid req tbl\<close> is \<open>None\<close> when \<open>serializer.is_valid(raise_exception=True)\<close>
  raises and \<open>Some serializer.user\<close> otherwise. \<open>t_fail\<close> is the clock as
  \<open>handle_failed_login_attempts\<close> reads it.
\<close>

definition login_post ::
  "settings \<Rightarrow> (login_request \<Rightarrow> user list \<Rightarrow> user option) \<Rightarrow> (nat \<Rightarrow> nat) \<Rightarrow>
   datetime \<Rightarrow> datetime \<Rightarrow> datetime \<Rightarrow> login_request \<Rightarrow> world \<Rightarrow> response \<times> world" where
  "login_post cfg is_valid rnd t_fail t_lock t_otp req w =
     (case is_valid req (users w) of
        None \<Rightarrow>
          (case filter_email_first (req_email req) w of
             Some usr \<Rightarrow>
               (let (u1, w1) = handle_failed_login_attempts cfg t_fail usr w;
                    failed_attempts = failed_login_attempts u1
                in if failed_attempts \<ge> LOGIN_ATTEMPTS cfg
                   then (lockout_triggered_response cfg, w1)
                   else (invalid_credentials_response, w1))
           | None \<Rightarrow> (invalid_credentials_response, w))
      | Some usr \<Rightarrow> action cfg rnd t_lock t_otp usr w)"

section \<open>The OTP endpoint (OTPVerifyView)\<close>

definition otp_required_response :: response where
  "otp_required_response = Response [(''error'', Lit ''OTP is required'')] 400"

definition invalid_otp_response :: response where
  "invalid_otp_response = Response [(''error'', Lit ''Invalid or expired OTP'')] 400"

definition otp_locked_response :: "settings \<Rightarrow> response" where
  "otp_locked_response cfg =
     Response
       [(''error'', Minutes
           ''Account is locked due to multiple failed login attempts. Please try again after ''
           (LOCKOUT_DURATION cfg) '' minutes '')]
       403"

definition login_successful_response :: response where
  "login_successful_response =
     Response
       [(''success'', Lit (''Login successful. Now add your profile information, '' @
                          ''so that we can create an account for you''))]
       200"

text \<open>
  \<open>User.objects.filter(otp=otp, otp_expiry_time__gt=timezone.now()).first()\<close>: a
  null expiry time satisfies no comparison.
\<close>

definition filter_otp_first :: "string \<Rightarrow> datetime \<Rightarrow> world \<Rightarrow> user option" where
  "filter_otp_first code now w =
     find (\<lambda>u. otp u = code \<and>
                (case otp_expiry_time u of None \<Rightarrow> False | Some e \<Rightarrow> e > now))
          (users w)"

text \<open>
  \<open>post\<close>. \<open>for_user\<close> stands for simplejwt's \<open>RefreshToken.for_user\<close> and gives
  the access and the refresh token as strings. The clock is read by the query
  (\<open>t_query\<close>), by \<open>is_locked_out\<close> (\<open>t_lock\<close>) and by \<open>verify_otp\<close>
  (\<open>t_verify\<close>); the result of \<open>verify_otp\<close> is discarded.
\<close>

definition otp_verify_post ::
  "settings \<Rightarrow> (user \<Rightarrow> string \<times> string) \<Rightarrow> datetime \<Rightarrow> datetime \<Rightarrow> datetime \<Rightarrow>
   string option \<Rightarrow> world \<Rightarrow> py_error + (response \<times> world)" where
  "otp_verify_post cfg for_user t_query t_lock t_verify req_otp w =
     (case req_otp of
        None \<Rightarrow> Inr (otp_required_response, w)
      | Some code \<Rightarrow>
          if code = [] then Inr (otp_required_response, w)
          else
            (case filter_otp_first code t_query w of
               None \<Rightarrow> Inr (invalid_otp_response, w)
             | Some usr \<Rightarrow>
                 (let (locked, u1, w1) = is_locked_out cfg t_lock usr w
                  in if locked then Inr (otp_locked_response cfg, w1)
                     else
                       (case verify_otp t_verify code u1 w1 of
                          Inl e \<Rightarrow> Inl e
                        | Inr (ok, u2, w2) \<Rightarrow>
                            (let (access_token, refresh_token) = for_user u2
                             in Inr (set_auth_cookies cfg access_token (Some refresh_token)
                                       login_successful_response, w2))))))"

section \<open>Example data\<close>

text \<open>
  A policy with the values the specification names: lock at the fifth failure, a
  lockout of thirty minutes, an OTP valid for five minutes.
\<close>

definition example_settings :: settings where
  "example_settings =
     \<lparr>LOGIN_ATTEMPTS = 5, LOCKOUT_DURATION = 1800000000, OTP_EXPIRATION = 300000000,
      ACCESS_TOKEN_LIFETIME = 1800000000, REFRESH_TOKEN_LIFETIME = 86400000000,
      COOKIE_PATH = ''/'', COOKIE_SECURE = True, COOKIE_HTTPONLY = True,
      COOKIE_SAMESITE = ''Lax''\<rparr>"

definition alice :: user where
  "alice = \<lparr>pk = 1, email = ''alice@example.com'', account_status = ACTIVE,
            failed_login_attempts = 4, last_failed_login = Some 1000,
            otp = [], otp_expiry_time = None\<rparr>"

definition bob :: user where
  "bob = \<lparr>pk = 2, email = ''bob@example.com'', account_status = LOCKED,
          failed_login_attempts = 5, last_failed_login = Some 1000,
          otp = ''123456'', otp_expiry_time = Some 200000000\<rparr>"

definition carol :: user where
  "carol = \<lparr>pk = 3, email = ''carol@example.com'', account_status = ACTIVE,
            failed_login_attempts = 5, last_failed_login = None,
            otp = [], otp_expiry_time = None\<rparr>"

definition dave :: user where
  "dave = \<lparr>pk = 4, email = ''dave@example.com'', account_status = LOCKED,
           failed_login_attempts = 5, last_failed_login = None,
           otp = [], otp_expiry_time = None\<rparr>"

definition erin :: user where
  "erin = \<lparr>pk = 5, email = ''erin@example.com'', account_status = ACTIVE,
           failed_login_attempts = 0, last_failed_login = None,
           otp = ''654321'', otp_expiry_time = Some 200000000\<rparr>"

definition frank :: user where
  "frank = \<lparr>pk = 6, email = ''frank@example.com'', account_status = ACTIVE,
            failed_login_attempts = 0, last_failed_login = None,
            otp = ''654321'', otp_expiry_time = Some 200000000\<rparr>"

definition example_world :: world where
  "example_world = \<lparr>users = [alice, bob, carol, dave, erin], outbox = []\<rparr>"

text \<open>
  Stand-ins for the parts that live outside the repository: a serializer that accepts
  one fixed password for every stored user, a token factory, and a random source.
\<close>

definition example_is_valid :: "login_request \<Rightarrow> user list \<Rightarrow> user option" where
  "example_is_valid req tbl =
     (case req_email req of
        None \<Rightarrow> None
      | Some a \<Rightarrow>
          (case find (\<lambda>u. email u = a) tbl of
             None \<Rightarrow> None
           | Some u \<Rightarrow> if req_password req = Some ''correct horse'' then Some u else None))"

definition example_for_user :: "user \<Rightarrow> string \<times> string" where
  "example_for_user u = (''access.'' @ email u, ''refresh.'' @ email u)"

definition example_rnd :: "nat \<Rightarrow> nat" where
  "example_rnd i = 7 * i + 3"

section \<open>The store under save\<close>


lemma outbox_save: "outbox (save u w) = outbox w"
  by (simp add: save_def)

lemma save_save: "pk u' = pk u \<Longrightarrow> save u' (save u w) = save u' w"
  by (simp add: save_def comp_def cong: map_cong)

section \<open>Recording a failed login\<close>

lemma handle_failed_fst:
  "fst (handle_failed_login_attempts cfg now u w) =
     u\<lparr>failed_login_attempts := failed_login_attempts u + 1,
       last_failed_login := Some now,
       account_status := (if failed_login_attempts u + 1 \<ge> LOGIN_ATTEMPTS cfg then LOCKED
                          else account_status u)\<rparr>"
  by (simp add: handle_failed_login_attempts_def Let_def)

lemma handle_failed_snd:
  "snd (handle_failed_login_attempts cfg now u w) =
     (let u' = fst (handle_failed_login_attempts cfg now u w)
      in if failed_login_attempts u + 1 \<ge> LOGIN_ATTEMPTS cfg
         then (save u' w)\<lparr>outbox := outbox w @ [AccountLockedEmail (email u)]\<rparr>
         else save u' w)"
  by (simp add: handle_failed_login_attempts_def Let_def send_account_locked_email_def
      save_def comp_def cong: map_cong)

text \<open>
  C1, as the code has it. A call of \<open>handle_failed_login_attempts\<close> adds exactly one
  to \<open>failed_login_attempts\<close>, sets \<open>last_failed_login\<close> to the current time, and
  sets \<open>account_status\<close> to locked in the same call exactly when the count after the
  increment is at least \<open>LOGIN_ATTEMPTS\<close> (the test is \<open>>=\<close>); below the threshold
  the status is left as it was. For an identity that is active with fewer failures
  than the threshold, the status becomes locked exactly in the call whose count after
  the increment equals the threshold. The other fields are untouched, the object is
  saved, and the lockout mail is queued exactly when the account is locked.
\<close>

theorem handle_failed_login_attempts_locks_from_threshold:
  "handle_failed_login_attempts cfg now u w = (u', w') \<Longrightarrow>
     failed_login_attempts u' = failed_login_attempts u + 1 \<and>
     last_failed_login u' = Some now \<and>
     account_status u' =
       (if failed_login_attempts u + 1 \<ge> LOGIN_ATTEMPTS cfg then LOCKED else account_status u) \<and>
     (account_status u = ACTIVE \<and> failed_login_attempts u < LOGIN_ATTEMPTS cfg \<longrightarrow>
        (account_status u' = LOCKED \<longleftrightarrow> failed_login_attempts u + 1 = LOGIN_ATTEMPTS cfg)) \<and>
     pk u' = pk u \<and> email u' = email u \<and> otp u' = otp u \<and>
     otp_expiry_time u' = otp_expiry_time u \<and>
     users w' = users (save u' w) \<and>
     outbox w' =
       (if failed_login_attempts u + 1 \<ge> LOGIN_ATTEMPTS cfg
        then outbox w @ [AccountLockedEmail (email u)] else outbox w)"
proof -
  assume run: "handle_failed_login_attempts cfg now u w = (u', w')"
  have u': "u' = fst (handle_failed_login_attempts cfg now u w)"
    and w': "w' = snd (handle_failed_login_attempts cfg now u w)"
    using run by simp_all
  show ?thesis
    unfolding w' handle_failed_snd unfolding u' handle_failed_fst
    by (auto simp: Let_def save_def)
qed

text \<open>
  C1, witness, under a threshold of five: the fifth failure of \<open>alice\<close>, who is
  active with four failures, locks her and queues the mail; with three failures
  recorded, the fourth leaves her active.
\<close>

theorem handle_failed_login_attempts_locks_from_threshold_witness:
  "failed_login_attempts
     (fst (handle_failed_login_attempts example_settings 2000 alice example_world)) = 5 \<and>
   last_failed_login
     (fst (handle_failed_login_attempts example_settings 2000 alice example_world)) = Some 2000 \<and>
   account_status alice = ACTIVE \<and>
   account_status
     (fst (handle_failed_login_attempts example_settings 2000 alice example_world)) = LOCKED \<and>
   outbox (snd (handle_failed_login_attempts example_settings 2000 alice example_world)) =
     [AccountLockedEmail ''alice@example.com''] \<and>
   failed_login_attempts
     (fst (handle_failed_login_attempts example_settings 2000
            (alice\<lparr>failed_login_attempts := 3\<rparr>) example_world)) = 4 \<and>
   account_status
     (fst (handle_failed_login_attempts example_settings 2000
            (alice\<lparr>failed_login_attempts := 3\<rparr>) example_world)) = ACTIVE \<and>
   outbox (snd (handle_failed_login_attempts example_settings 2000
            (alice\<lparr>failed_login_attempts := 3\<rparr>) example_world)) = []"
  using handle_failed_login_attempts_locks_from_threshold
    [of example_settings 2000 alice example_world
      "fst (handle_failed_login_attempts example_settings 2000 alice example_world)"
      "snd (handle_failed_login_attempts example_settings 2000 alice example_world)"]
    handle_failed_login_attempts_locks_from_threshold
    [of example_settings 2000 "alice\<lparr>failed_login_attempts := 3\<rparr>" example_world
      "fst (handle_failed_login_attempts example_settings 2000
            (alice\<lparr>failed_login_attempts := 3\<rparr>) example_world)"
      "snd (handle_failed_login_attempts example_settings 2000
            (alice\<lparr>failed_login_attempts := 3\<rparr>) example_world)"]
  by (simp add: example_settings_def alice_def example_world_def)

text \<open>
  C1, counterexample to "never at a count of 6": \<open>carol\<close> is active with five
  recorded failures under a threshold of five (both columns can be edited in the
  admin). Her next failure gives a count of six and flips the status to locked.
\<close>

theorem handle_failed_login_attempts_locks_at_six:
  "LOGIN_ATTEMPTS example_settings = 5 \<and> account_status carol = ACTIVE \<and>
   failed_login_attempts
     (fst (handle_failed_login_attempts example_settings 2000 carol example_world)) = 6 \<and>
   account_status
     (fst (handle_failed_login_attempts example_settings 2000 carol example_world)) = LOCKED"
  by (simp add: handle_failed_login_attempts_def example_settings_def carol_def Let_def)

section \<open>The lockout check\<close>

lemma unlock_account_locked:
  "account_status u = LOCKED \<Longrightarrow>
   unlock_account u w =
     (u\<lparr>account_status := ACTIVE, failed_login_attempts := 0, last_failed_login := None\<rparr>,
      save (u\<lparr>account_status := ACTIVE, failed_login_attempts := 0,
               last_failed_login := None\<rparr>) w)"
  by (simp add: unlock_account_def Let_def)

text \<open>
  C2. For a locked identity whose \<open>last_failed_login\<close> is set, \<open>is_locked_out\<close>
  returns true and changes nothing while the time elapsed since then is at most
  \<open>LOCKOUT_DURATION\<close>; strictly after it, the account is unlocked (status active,
  counter zero, timestamp cleared, object saved) and the result is false. For an
  active identity the result is false and nothing changes.
\<close>

theorem is_locked_out_window:
  "(account_status u = LOCKED \<and> last_failed_login u = Some t \<and>
      now - t \<le> LOCKOUT_DURATION cfg \<longrightarrow>
        is_locked_out cfg now u w = (True, u, w)) \<and>
   (account_status u = LOCKED \<and> last_failed_login u = Some t \<and>
      now - t > LOCKOUT_DURATION cfg \<longrightarrow>
        is_locked_out cfg now u w =
          (False,
           u\<lparr>account_status := ACTIVE, failed_login_attempts := 0, last_failed_login := None\<rparr>,
           save (u\<lparr>account_status := ACTIVE, failed_login_attempts := 0,
                    last_failed_login := None\<rparr>) w)) \<and>
   (account_status u = ACTIVE \<longrightarrow> is_locked_out cfg now u w = (False, u, w))"
  by (simp add: is_locked_out_def unlock_account_locked)

text \<open>
  C2, witness: \<open>bob\<close> was locked at time 1000 under a lockout of 1800000000. At
  exactly the end of the window he is still locked out, one microsecond later he is
  unlocked; \<open>alice\<close> is active.
\<close>

theorem is_locked_out_window_witness:
  "is_locked_out example_settings 1800001000 bob example_world = (True, bob, example_world) \<and>
   is_locked_out example_settings 1800001001 bob example_world =
     (False,
      bob\<lparr>account_status := ACTIVE, failed_login_attempts := 0, last_failed_login := None\<rparr>,
      save (bob\<lparr>account_status := ACTIVE, failed_login_attempts := 0,
                 last_failed_login := None\<rparr>) example_world) \<and>
   is_locked_out example_settings 1800001001 alice example_world = (False, alice, example_world)"
  using is_locked_out_window [of bob 1000 1800001000 example_settings example_world]
    is_locked_out_window [of bob 1000 1800001001 example_settings example_world]
    is_locked_out_window [of alice 1000 1800001001 example_settings example_world]
  by (simp add: bob_def alice_def example_settings_def)



section \<open>Setting and verifying the OTP\<close>

lemma set_otp_eq:
  "set_otp cfg now code u w =
     (u\<lparr>otp := code, otp_expiry_time := Some (now + OTP_EXPIRATION cfg)\<rparr>,
      save (u\<lparr>otp := code, otp_expiry_time := Some (now + OTP_EXPIRATION cfg)\<rparr>) w)"
  by (simp add: set_otp_def Let_def)

lemma verify_otp_other_code:
  "otp u \<noteq> code \<Longrightarrow> verify_otp now code u w = Inr (False, u, w)"
  by (simp add: verify_otp_def)

lemma verify_otp_True:
  "verify_otp now c u w = Inr (True, u', w') \<Longrightarrow>
     u' = u\<lparr>otp := [], otp_expiry_time := None\<rparr> \<and> w' = save u' w"
  by (auto simp: verify_otp_def Let_def split: option.splits if_splits)

lemma verify_otp_False:
  "verify_otp now c u w = Inr (False, u', w') \<Longrightarrow> u' = u \<and> w' = w"
  by (auto simp: verify_otp_def Let_def split: option.splits if_splits)

lemma reset_eq:
  "reset_failed_login_attempts u w =
     (u\<lparr>failed_login_attempts := 0, last_failed_login := None, account_status := ACTIVE\<rparr>,
      save (u\<lparr>failed_login_attempts := 0, last_failed_login := None,
               account_status := ACTIVE\<rparr>) w)"
  by (simp add: reset_failed_login_attempts_def Let_def)

lemma unlock_frame:
  "otp (fst (unlock_account u w)) = otp u \<and>
   otp_expiry_time (fst (unlock_account u w)) = otp_expiry_time u \<and>
   pk (fst (unlock_account u w)) = pk u \<and> email (fst (unlock_account u w)) = email u"
  by (simp add: unlock_account_def Let_def)

lemma is_locked_out_frame:
  "otp (fst (snd (is_locked_out cfg now u w))) = otp u \<and>
   otp_expiry_time (fst (snd (is_locked_out cfg now u w))) = otp_expiry_time u \<and>
   pk (fst (snd (is_locked_out cfg now u w))) = pk u \<and>
   email (fst (snd (is_locked_out cfg now u w))) = email u"
  by (simp add: is_locked_out_def unlock_frame split_beta split: option.splits)

text \<open>
  C4, at the input where the code leaves the claim: for an identity whose OTP is
  cleared (\<open>otp\<close> empty, \<open>otp_expiry_time\<close> \<open>None\<close>), \<open>verify_otp\<close> of the empty
  string does not return \<open>False\<close>: the codes are equal, so \<open>None\<close> is compared with
  the clock and \<open>TypeError\<close> is raised.
\<close>

theorem verify_otp_cleared_empty_code_raises:
  "verify_otp now [] (u\<lparr>otp := [], otp_expiry_time := None\<rparr>) w = Inl TypeError"
  by (simp add: verify_otp_def)

text \<open>For every other submitted string a cleared OTP is rejected and nothing changes.\<close>

lemma verify_otp_cleared_nonempty_code:
  "otp u = [] \<Longrightarrow> code \<noteq> [] \<Longrightarrow> verify_otp now code u w = Inr (False, u, w)"
  by (simp add: verify_otp_def)

text \<open>
  C5. \<open>set_otp\<close> writes both fields in one step, the code given and the expiry
  \<open>now + OTP_EXPIRATION\<close>, and saves the object; a different, earlier code then no
  longer verifies and the attempt changes nothing. \<open>verify_otp\<close> either clears both
  fields (result true) or leaves the object as it was (result false), and the lockout
  methods touch neither field: no method writes one of the two without the other.
\<close>

theorem set_otp_overwrites_both_fields:
  "otp (fst (set_otp cfg now c2 u w)) = c2 \<and>
   otp_expiry_time (fst (set_otp cfg now c2 u w)) = Some (now + OTP_EXPIRATION cfg) \<and>
   snd (set_otp cfg now c2 u w) = save (fst (set_otp cfg now c2 u w)) w \<and>
   (c1 \<noteq> c2 \<longrightarrow>
      verify_otp now' c1 (fst (set_otp cfg now c2 u w)) (snd (set_otp cfg now c2 u w)) =
        Inr (False, fst (set_otp cfg now c2 u w), snd (set_otp cfg now c2 u w))) \<and>
   (verify_otp now c u w = Inr (True, u', w') \<longrightarrow>
      otp u' = [] \<and> otp_expiry_time u' = None \<and> w' = save u' w) \<and>
   (verify_otp now c u w = Inr (False, u', w') \<longrightarrow> u' = u \<and> w' = w) \<and>
   otp (fst (handle_failed_login_attempts cfg now u w)) = otp u \<and>
   otp_expiry_time (fst (handle_failed_login_attempts cfg now u w)) = otp_expiry_time u \<and>
   otp (fst (reset_failed_login_attempts u w)) = otp u \<and>
   otp_expiry_time (fst (reset_failed_login_attempts u w)) = otp_expiry_time u \<and>
   otp (fst (unlock_account u w)) = otp u \<and>
   otp_expiry_time (fst (unlock_account u w)) = otp_expiry_time u \<and>
   otp (fst (snd (is_locked_out cfg now u w))) = otp u \<and>
   otp_expiry_time (fst (snd (is_locked_out cfg now u w))) = otp_expiry_time u"
proof -
  have a: "c1 \<noteq> c2 \<longrightarrow>
      verify_otp now' c1 (fst (set_otp cfg now c2 u w)) (snd (set_otp cfg now c2 u w)) =
        Inr (False, fst (set_otp cfg now c2 u w), snd (set_otp cfg now c2 u w))"
    by (simp add: set_otp_eq verify_otp_other_code)
  have b: "verify_otp now c u w = Inr (True, u', w') \<longrightarrow>
      otp u' = [] \<and> otp_expiry_time u' = None \<and> w' = save u' w"
    using verify_otp_True [of now c u w u' w'] by auto
  have c: "verify_otp now c u w = Inr (False, u', w') \<longrightarrow> u' = u \<and> w' = w"
    using verify_otp_False [of now c u w u' w'] by blast
  show ?thesis
    using a b c unlock_frame [of u w] is_locked_out_frame [of cfg now u w]
    by (simp add: set_otp_eq handle_failed_fst reset_eq)
qed

text \<open>
  C5, witness: \<open>erin\<close> holds the code 654321; after a new code 111111 is set at
  time 2000 the stored expiry is 2000 plus five minutes, and the old code is rejected.
  Without the new code, her own code verifies and clears both fields, and a wrong code
  changes nothing.
\<close>

theorem set_otp_overwrites_both_fields_witness:
  "otp (fst (set_otp example_settings 2000 ''111111'' erin example_world)) = ''111111'' \<and>
   otp_expiry_time (fst (set_otp example_settings 2000 ''111111'' erin example_world)) =
     Some 300002000 \<and>
   otp erin = ''654321'' \<and>
   verify_otp 3000 ''654321'' (fst (set_otp example_settings 2000 ''111111'' erin example_world))
       (snd (set_otp example_settings 2000 ''111111'' erin example_world)) =
     Inr (False, fst (set_otp example_settings 2000 ''111111'' erin example_world),
          snd (set_otp example_settings 2000 ''111111'' erin example_world)) \<and>
   verify_otp 3000 ''654321'' erin example_world =
     Inr (True, erin\<lparr>otp := [], otp_expiry_time := None\<rparr>,
          save (erin\<lparr>otp := [], otp_expiry_time := None\<rparr>) example_world) \<and>
   otp (erin\<lparr>otp := [], otp_expiry_time := None\<rparr>) = [] \<and>
   otp_expiry_time (erin\<lparr>otp := [], otp_expiry_time := None\<rparr>) = None \<and>
   verify_otp 3000 ''000000'' erin example_world = Inr (False, erin, example_world)"
proof -
  have t: "verify_otp 3000 ''654321'' erin example_world =
     Inr (True, erin\<lparr>otp := [], otp_expiry_time := None\<rparr>,
          save (erin\<lparr>otp := [], otp_expiry_time := None\<rparr>) example_world)"
    by (simp add: verify_otp_def erin_def Let_def)
  have f: "verify_otp 3000 ''000000'' erin example_world = Inr (False, erin, example_world)"
    by (simp add: verify_otp_def erin_def)
  show ?thesis
    using set_otp_overwrites_both_fields
      [where cfg = example_settings and now = 2000 and ?c2.0 = "''111111''" and u = erin
        and w = example_world and ?c1.0 = "''654321''" and now' = 3000]
      set_otp_overwrites_both_fields
      [where cfg = example_settings and now = 3000 and u = erin and w = example_world
        and c = "''654321''" and u' = "erin\<lparr>otp := [], otp_expiry_time := None\<rparr>"
        and w' = "save (erin\<lparr>otp := [], otp_expiry_time := None\<rparr>) example_world"]
      set_otp_overwrites_both_fields
      [where cfg = example_settings and now = 3000 and u = erin and w = example_world
        and c = "''000000''" and u' = erin and w' = example_world]
      t f
    by (simp add: erin_def example_settings_def set_otp_eq)
qed

section \<open>The login endpoint\<close>

lemma generate_otp_example: "generate_otp example_rnd 6 = ''307418''"
  by code_simp

lemma generate_otp_length: "length (generate_otp rnd n) = n"
  by (simp add: generate_otp_def)

lemma choice_mem: "seq \<noteq> [] \<Longrightarrow> choice r seq \<in> set seq"
  by (simp add: choice_def)

lemma generate_otp_digits: "set (generate_otp rnd n) \<subseteq> set digits"
proof -
  have "digits \<noteq> []" by (simp add: digits_def)
  then have "\<And>i. choice (rnd i) digits \<in> set digits" by (rule choice_mem)
  then show ?thesis by (auto simp: generate_otp_def)
qed

lemma is_locked_out_True:
  "fst (is_locked_out cfg now u w) \<Longrightarrow> is_locked_out cfg now u w = (True, u, w)"
  by (auto simp: is_locked_out_def split_beta split: if_splits option.splits)

lemma is_locked_out_False:
  "\<not> fst (is_locked_out cfg now u w) \<Longrightarrow>
   is_locked_out cfg now u w = (False, u, w) \<or>
   is_locked_out cfg now u w =
     (False,
      u\<lparr>account_status := ACTIVE, failed_login_attempts := 0, last_failed_login := None\<rparr>,
      save (u\<lparr>account_status := ACTIVE, failed_login_attempts := 0,
               last_failed_login := None\<rparr>) w)"
  by (auto simp: is_locked_out_def unlock_account_locked split: if_splits option.splits)

lemma login_post_unknown:
  "is_valid req (users w) = None \<Longrightarrow> filter_email_first (req_email req) w = None \<Longrightarrow>
   login_post cfg is_valid rnd t_fail t_lock t_otp req w = (invalid_credentials_response, w)"
  by (simp add: login_post_def)

lemma login_post_wrong_password:
  "is_valid req (users w) = None \<Longrightarrow> filter_email_first (req_email req) w = Some usr \<Longrightarrow>
   login_post cfg is_valid rnd t_fail t_lock t_otp req w =
     (if failed_login_attempts usr + 1 \<ge> LOGIN_ATTEMPTS cfg
      then lockout_triggered_response cfg else invalid_credentials_response,
      snd (handle_failed_login_attempts cfg t_fail usr w))"
  by (simp add: login_post_def split_beta Let_def handle_failed_fst)

lemma action_locked:
  "fst (is_locked_out cfg t_lock usr w) \<Longrightarrow>
   action cfg rnd t_lock t_otp usr w = (locked_response cfg, w)"
  by (simp add: action_def is_locked_out_True)

lemma action_not_locked:
  assumes "\<not> fst (is_locked_out cfg t_lock usr w)"
  shows "action cfg rnd t_lock t_otp usr w =
     (otp_sent_response (email usr),
      send_otp_email (email usr) (generate_otp rnd 6)
        (save (usr\<lparr>failed_login_attempts := 0, last_failed_login := None,
                   account_status := ACTIVE, otp := generate_otp rnd 6,
                   otp_expiry_time := Some (t_otp + OTP_EXPIRATION cfg)\<rparr>) w))"
  using is_locked_out_False [OF assms]
  by (auto simp: action_def reset_eq set_otp_eq Let_def save_save)

text \<open>
  C6. Take two login attempts whose validation fails, one with an email that no stored
  identity has, one with the email of a stored identity whose count after this failure
  stays below \<open>LOGIN_ATTEMPTS\<close> (no lockout is triggered). Both get the same
  response: status 400, the body \<open>{"error": "Invalid credentials. Please try
  again."}\<close>, no cookie. The two runs may differ in store, clock and random source.
\<close>

theorem login_post_failure_indistinguishable:
  assumes "is_valid req1 (users w1) = None"
    and "is_valid req2 (users w2) = None"
    and "filter_email_first (req_email req1) w1 = None"
    and "filter_email_first (req_email req2) w2 = Some usr"
    and "failed_login_attempts usr + 1 < LOGIN_ATTEMPTS cfg"
  shows "fst (login_post cfg is_valid rnd1 t_fail1 t_lock1 t_otp1 req1 w1) =
           fst (login_post cfg is_valid rnd2 t_fail2 t_lock2 t_otp2 req2 w2) \<and>
         fst (login_post cfg is_valid rnd1 t_fail1 t_lock1 t_otp1 req1 w1) =
           invalid_credentials_response \<and>
         status invalid_credentials_response = 400 \<and>
         data invalid_credentials_response =
           [(''error'', Lit ''Invalid credentials. Please try again.'')] \<and>
         cookies invalid_credentials_response = []"
  using assms
  by (simp add: login_post_unknown login_post_wrong_password invalid_credentials_response_def
      Response_def)

text \<open>
  C6, witness: a wrong password for an email nobody has and for \<open>erin\<close>, who has no
  failure recorded.
\<close>

theorem login_post_failure_indistinguishable_witness:
  "fst (login_post example_settings example_is_valid example_rnd 2000 2000 2000
          \<lparr>req_email = Some ''mallory@example.com'', req_password = Some ''guess''\<rparr>
          example_world) =
   fst (login_post example_settings example_is_valid example_rnd 2000 2000 2000
          \<lparr>req_email = Some ''erin@example.com'', req_password = Some ''guess''\<rparr>
          example_world) \<and>
   status (fst (login_post example_settings example_is_valid example_rnd 2000 2000 2000
          \<lparr>req_email = Some ''erin@example.com'', req_password = Some ''guess''\<rparr>
          example_world)) = 400"
  using login_post_failure_indistinguishable [where is_valid = example_is_valid
      and ?req1.0 = "\<lparr>req_email = Some ''mallory@example.com'', req_password = Some ''guess''\<rparr>"
      and ?w1.0 = example_world
      and ?req2.0 = "\<lparr>req_email = Some ''erin@example.com'', req_password = Some ''guess''\<rparr>"
      and ?w2.0 = example_world and usr = erin and cfg = example_settings
      and ?rnd1.0 = example_rnd and ?t_fail1.0 = 2000 and ?t_lock1.0 = 2000 and ?t_otp1.0 = 2000
      and ?rnd2.0 = example_rnd and ?t_fail2.0 = 2000 and ?t_lock2.0 = 2000 and ?t_otp2.0 = 2000]
  by (simp add: example_is_valid_def filter_email_first_def example_world_def alice_def bob_def
      carol_def dave_def erin_def example_settings_def login_post_def
      handle_failed_login_attempts_def Let_def invalid_credentials_response_def Response_def)

text \<open>
  C7. When the serializer accepts the credentials and the identity is not locked out,
  the endpoint leaves the identity \<open>u'\<close> in the store with the failure state reset
  (count zero, no timestamp, status active) and a freshly generated six-digit OTP whose
  expiry is the clock at \<open>set_otp\<close> plus \<open>OTP_EXPIRATION\<close>; the OTP mail is queued;
  the response is 200 with the keys \<open>success\<close> and \<open>email\<close>, carries no token and
  sets no cookie.
\<close>

theorem login_post_issues_otp:
  assumes "is_valid req (users w) = Some usr"
    and "\<not> fst (is_locked_out cfg t_lock usr w)"
    and "u' = usr\<lparr>failed_login_attempts := 0, last_failed_login := None,
                   account_status := ACTIVE, otp := generate_otp rnd 6,
                   otp_expiry_time := Some (t_otp + OTP_EXPIRATION cfg)\<rparr>"
  shows "login_post cfg is_valid rnd t_fail t_lock t_otp req w =
           (otp_sent_response (email usr),
            send_otp_email (email usr) (generate_otp rnd 6) (save u' w)) \<and>
         failed_login_attempts u' = 0 \<and> last_failed_login u' = None \<and>
         account_status u' = ACTIVE \<and>
         otp u' = generate_otp rnd 6 \<and> length (otp u') = 6 \<and> set (otp u') \<subseteq> set digits \<and>
         otp_expiry_time u' = Some (t_otp + OTP_EXPIRATION cfg) \<and>
         status (otp_sent_response (email usr)) = 200 \<and>
         map fst (data (otp_sent_response (email usr))) = [''success'', ''email''] \<and>
         cookies (otp_sent_response (email usr)) = []"
  using assms generate_otp_digits [of rnd 6]
  by (simp add: login_post_def action_not_locked generate_otp_length otp_sent_response_def
      Response_def)

text \<open>
  C7, witness: \<open>bob\<close>, locked long enough ago for the lockout to have run out, logs
  in with the right password; the random source gives the code 307418.
\<close>

theorem login_post_issues_otp_witness:
  "login_post example_settings example_is_valid example_rnd 2000 2000 3000
     \<lparr>req_email = Some ''bob@example.com'', req_password = Some ''correct horse''\<rparr>
     (example_world\<lparr>users := [bob\<lparr>last_failed_login := Some (- 1800000000)\<rparr>]\<rparr>) =
   (otp_sent_response ''bob@example.com'',
    \<lparr>users = [bob\<lparr>failed_login_attempts := 0, last_failed_login := None,
                  account_status := ACTIVE, otp := ''307418'',
                  otp_expiry_time := Some 300003000\<rparr>],
     outbox = [OtpEmail ''bob@example.com'' ''307418'']\<rparr>) \<and>
   cookies (otp_sent_response ''bob@example.com'') = []"
  using login_post_issues_otp [where is_valid = example_is_valid
      and req = "\<lparr>req_email = Some ''bob@example.com'', req_password = Some ''correct horse''\<rparr>"
      and w = "example_world\<lparr>users := [bob\<lparr>last_failed_login := Some (- 1800000000)\<rparr>]\<rparr>"
      and usr = "bob\<lparr>last_failed_login := Some (- 1800000000)\<rparr>"
      and cfg = example_settings and t_lock = 2000 and t_otp = 3000 and t_fail = 2000
      and rnd = example_rnd
      and u' = "bob\<lparr>failed_login_attempts := 0, last_failed_login := None,
                  account_status := ACTIVE, otp := ''307418'',
                  otp_expiry_time := Some 300003000\<rparr>"]
  by (simp add: example_is_valid_def example_world_def bob_def example_settings_def
      generate_otp_example is_locked_out_def unlock_account_def Let_def save_def
      send_otp_email_def)

text \<open>
  C8. When the serializer accepts the credentials but \<open>is_locked_out\<close> is true, the
  endpoint answers 403 with the locked message and the world is exactly as before: the
  counter is not reset, the timestamp is not cleared, no OTP is stored, no mail is
  queued.
\<close>

theorem login_post_locked_changes_nothing:
  assumes "is_valid req (users w) = Some usr"
    and "fst (is_locked_out cfg t_lock usr w)"
  shows "login_post cfg is_valid rnd t_fail t_lock t_otp req w = (locked_response cfg, w) \<and>
         status (locked_response cfg) = 403 \<and>
         cookies (locked_response cfg) = [] \<and>
         is_locked_out cfg t_lock usr w = (True, usr, w)"
  using assms
  by (simp add: login_post_def action_locked is_locked_out_True locked_response_def Response_def)

text \<open>
  C8, witness: \<open>bob\<close>, locked at time 1000, logs in with the right password at time
  2000.
\<close>

theorem login_post_locked_changes_nothing_witness:
  "login_post example_settings example_is_valid example_rnd 2000 2000 3000
     \<lparr>req_email = Some ''bob@example.com'', req_password = Some ''correct horse''\<rparr>
     example_world = (locked_response example_settings, example_world) \<and>
   status (locked_response example_settings) = 403"
  using login_post_locked_changes_nothing [where is_valid = example_is_valid
      and req = "\<lparr>req_email = Some ''bob@example.com'', req_password = Some ''correct horse''\<rparr>"
      and w = example_world and usr = bob and cfg = example_settings and t_lock = 2000
      and t_otp = 3000 and t_fail = 2000 and rnd = example_rnd]
  by (simp add: example_is_valid_def example_world_def bob_def alice_def example_settings_def
      is_locked_out_def)

section \<open>The OTP endpoint\<close>














text \<open>
  The query is by code value alone. When \<open>erin\<close> and \<open>frank\<close> hold the same
  unexpired code, the first submission logs in and clears \<open>erin\<close>, and the second
  submission of the same code is accepted for \<open>frank\<close>: this is why the single-use
  statement needs the code to be held by one identity only.
\<close>

lemma otp_verify_post_shared_code:
  "otp_verify_post example_settings example_for_user 2000 2000 2000 (Some ''654321'')
       \<lparr>users = [erin, frank], outbox = []\<rparr> =
     Inr (set_auth_cookies example_settings ''access.erin@example.com''
            (Some ''refresh.erin@example.com'') login_successful_response,
          \<lparr>users = [erin\<lparr>otp := [], otp_expiry_time := None\<rparr>, frank], outbox = []\<rparr>) \<and>
   otp_verify_post example_settings example_for_user 3000 3000 3000 (Some ''654321'')
       \<lparr>users = [erin\<lparr>otp := [], otp_expiry_time := None\<rparr>, frank], outbox = []\<rparr> =
     Inr (set_auth_cookies example_settings ''access.frank@example.com''
            (Some ''refresh.frank@example.com'') login_successful_response,
          \<lparr>users = [erin\<lparr>otp := [], otp_expiry_time := None\<rparr>,
                    frank\<lparr>otp := [], otp_expiry_time := None\<rparr>], outbox = []\<rparr>)"
  by (simp add: otp_verify_post_def filter_otp_first_def is_locked_out_def verify_otp_def
      erin_def frank_def example_for_user_def save_def Let_def)

end
